theory Spec2Isabelle
  imports Main "HOL-Library.Word"
begin

unbundle bit_operations_syntax

section \<open>The Field value model (fields/fields.go)\<close>

text \<open>
  \<^verbatim>\<open>type FieldKind uint8\<close> with the constants numbered by \<^verbatim>\<open>iota\<close>. The kind stays a byte,
  so that a Field whose kind lies outside the enumeration can be written down.
\<close>

type_synonym FieldKind = "8 word"

definition FieldKindInvalid :: FieldKind where "FieldKindInvalid = 0"
definition FieldKindAny :: FieldKind where "FieldKindAny = 1"
definition FieldKindString :: FieldKind where "FieldKindString = 2"
definition FieldKindBool :: FieldKind where "FieldKindBool = 3"
definition FieldKindInt64 :: FieldKind where "FieldKindInt64 = 4"
definition FieldKindUint64 :: FieldKind where "FieldKindUint64 = 5"
definition FieldKindFloat64 :: FieldKind where "FieldKindFloat64 = 6"
definition FieldKindTime :: FieldKind where "FieldKindTime = 7"
definition FieldKindDuration :: FieldKind where "FieldKindDuration = 8"
definition FieldKindError :: FieldKind where "FieldKindError = 9"
definition FieldKindStrings :: FieldKind where "FieldKindStrings = 10"
definition FieldKindBools :: FieldKind where "FieldKindBools = 11"
definition FieldKindInt64s :: FieldKind where "FieldKindInt64s = 12"
definition FieldKindUint64s :: FieldKind where "FieldKindUint64s = 13"
definition FieldKindFloat64s :: FieldKind where "FieldKindFloat64s = 14"
definition FieldKindErrors :: FieldKind where "FieldKindErrors = 15"
definition FieldKindDict :: FieldKind where "FieldKindDict = 16"
definition FieldKindRawJSON :: FieldKind where "FieldKindRawJSON = 17"
definition FieldKindHexBytes :: FieldKind where "FieldKindHexBytes = 18"
definition FieldKindLazyFields :: FieldKind where "FieldKindLazyFields = 19"
definition FieldKindLazyValue :: FieldKind where "FieldKindLazyValue = 20"
definition FieldKindTimestamp :: FieldKind where "FieldKindTimestamp = 21"

definition ErrorKey :: string where "ErrorKey = ''error''"
definition TimestampKey :: string where "TimestampKey = ''ts''"

text \<open>
  The values of the Go types that occur as payloads.
  \<^item> \<^verbatim>\<open>time.Time\<close> is the number of nanoseconds since the zero instant, so \<^verbatim>\<open>t.IsZero()\<close> is
    \<open>t = 0\<close>; the location is left out.
  \<^item> an \<^verbatim>\<open>int\<close> is the integer it denotes and a \<^verbatim>\<open>uint\<close> the natural number it denotes; their
    width is 32 or 64 bits with the platform, so the value of an \<^verbatim>\<open>int\<close> lies between \<open>- 2^63\<close>
    and \<open>2^63 - 1\<close> and the value of a \<^verbatim>\<open>uint\<close> below \<open>2^64\<close>. The sized types are words.
  \<^item> \<^verbatim>\<open>time.Duration\<close> is an \<^verbatim>\<open>int64\<close>; a \<^verbatim>\<open>float64\<close> is its IEEE bit pattern, since the code only
    stores and passes it.
  \<^item> a non-nil \<^verbatim>\<open>error\<close> is the message its \<^verbatim>\<open>Error()\<close> method returns; an \<^verbatim>\<open>error\<close> that may be
    nil is a \<open>goerror option\<close>, a function that may be nil is an option as well.
\<close>

type_synonym Time = int

datatype goerror = GoError (Error_msg: string)

datatype Context = Background | WithValue Context string string

text \<open>
  \<^verbatim>\<open>type Field struct { Key string; kind FieldKind; Value any }\<close>. The struct is recursive
  through its payload (a Dict carries Fields, a lazy producer returns Fields, the zap
  wrapper of \<^verbatim>\<open>Native\<close> carries a zap field and a zap field carries payloads), so it is a
  datatype with the struct's fields as selectors. \<open>goval\<close> is the dynamic value behind
  \<^verbatim>\<open>any\<close>, one constructor per dynamic type the code distinguishes; \<open>ZapField\<close> is the
  \<^verbatim>\<open>zap.Field\<close> that a constructor call of the zap library returns, kept as that call.
\<close>

datatype Field = Field (Key: string) (kind: FieldKind) (Value: goval)
and goval =
    VNil
  | VEmptyStruct
  | VString string
  | VBool bool
  | VInt int
  | VInt64 "64 word"
  | VUint nat
  | VUint64 "64 word"
  | VFloat64 "64 word"
  | VTime Time
  | VDuration "64 word"
  | VError goerror
  | VStrings "string list"
  | VBools "bool list"
  | VInt64s "64 word list"
  | VUint64s "64 word list"
  | VFloat64s "64 word list"
  | VErrors "goerror option list"
  | VFields "Field list"
  | VBytes "8 word list"
  | VRawMessage "8 word list"
  | VFuncCtx "Context \<Rightarrow> Field list"
  | VFunc "unit \<Rightarrow> Field list"
  | VNative ZapField
  | VOther string
and ZapField =
    ZapSkip
  | ZapString string string
  | ZapBool string bool
  | ZapInt64 string "64 word"
  | ZapUint64 string "64 word"
  | ZapFloat64 string "64 word"
  | ZapDuration string "64 word"
  | ZapTime string Time
  | ZapError goerror
  | ZapNamedError string goerror
  | ZapStrings string "string list"
  | ZapBools string "bool list"
  | ZapInt64s string "64 word list"
  | ZapUint64s string "64 word list"
  | ZapFloat64s string "64 word list"
  | ZapErrors string "goerror option list"
  | ZapObject string ObjectMarshaler
  | ZapAny string goval
and ObjectMarshaler =
    dictMarshaler "Field list"
  | dict "Field list"

text \<open>\<^verbatim>\<open>func (f Field) Kind() FieldKind { return f.kind }\<close>\<close>

definition Kind :: "Field \<Rightarrow> FieldKind" where
  "Kind f = kind f"

definition Nop :: Field where
  "Nop = Field '''' FieldKindInvalid VEmptyStruct"

text \<open>\<^verbatim>\<open>Field{}\<close>, the zero value of the struct: empty key, kind 0, nil payload.\<close>

definition zero_Field :: Field where
  "zero_Field = Field '''' 0 VNil"

definition IsZero :: "Field \<Rightarrow> bool" where
  "IsZero f = (kind f = FieldKindInvalid)"

text \<open>\<^verbatim>\<open>func (f Field) IsSkip() bool { return !f.IsZero() }\<close>\<close>

definition IsSkip :: "Field \<Rightarrow> bool" where
  "IsSkip f = (\<not> IsZero f)"

subsection \<open>Constructors\<close>

definition Any :: "string \<Rightarrow> goval \<Rightarrow> Field" where
  "Any k v = Field k FieldKindAny v"

definition String :: "string \<Rightarrow> string \<Rightarrow> Field" where
  "String k v = Field k FieldKindString (VString v)"

definition Bool :: "string \<Rightarrow> bool \<Rightarrow> Field" where
  "Bool k v = Field k FieldKindBool (VBool v)"

text \<open>\<^verbatim>\<open>Int\<close> and \<^verbatim>\<open>Uint\<close> convert with \<^verbatim>\<open>int64(v)\<close> and \<^verbatim>\<open>uint64(v)\<close>: the 64-bit word of the
  value.\<close>

definition Int_Field :: "string \<Rightarrow> int \<Rightarrow> Field" where
  "Int_Field k v = Field k FieldKindInt64 (VInt64 (word_of_int v))"

definition Int64 :: "string \<Rightarrow> 64 word \<Rightarrow> Field" where
  "Int64 k v = Field k FieldKindInt64 (VInt64 v)"

definition Uint :: "string \<Rightarrow> nat \<Rightarrow> Field" where
  "Uint k v = Field k FieldKindUint64 (VUint64 (of_nat v))"

definition Uint64 :: "string \<Rightarrow> 64 word \<Rightarrow> Field" where
  "Uint64 k v = Field k FieldKindUint64 (VUint64 v)"

definition Float64 :: "string \<Rightarrow> 64 word \<Rightarrow> Field" where
  "Float64 k v = Field k FieldKindFloat64 (VFloat64 v)"

definition TimeField :: "string \<Rightarrow> Time \<Rightarrow> Field" where
  "TimeField k v = Field k FieldKindTime (VTime v)"

definition Duration :: "string \<Rightarrow> 64 word \<Rightarrow> Field" where
  "Duration k v = Field k FieldKindDuration (VDuration v)"

definition Error :: "goerror option \<Rightarrow> Field" where
  "Error err = (case err of None \<Rightarrow> Nop
                | Some e \<Rightarrow> Field ErrorKey FieldKindError (VError e))"

definition NamedError :: "string \<Rightarrow> goerror option \<Rightarrow> Field" where
  "NamedError k err = (case err of None \<Rightarrow> Nop
                       | Some e \<Rightarrow> Field k FieldKindError (VError e))"

definition Strings :: "string \<Rightarrow> string list \<Rightarrow> Field" where
  "Strings k v = Field k FieldKindStrings (VStrings v)"

definition Bools :: "string \<Rightarrow> bool list \<Rightarrow> Field" where
  "Bools k v = Field k FieldKindBools (VBools v)"

definition Int64s :: "string \<Rightarrow> 64 word list \<Rightarrow> Field" where
  "Int64s k v = Field k FieldKindInt64s (VInt64s v)"

definition Uint64s :: "string \<Rightarrow> 64 word list \<Rightarrow> Field" where
  "Uint64s k v = Field k FieldKindUint64s (VUint64s v)"

definition Float64s :: "string \<Rightarrow> 64 word list \<Rightarrow> Field" where
  "Float64s k v = Field k FieldKindFloat64s (VFloat64s v)"

definition Errors :: "string \<Rightarrow> goerror option list \<Rightarrow> Field" where
  "Errors k v = Field k FieldKindErrors (VErrors v)"

definition Dict :: "string \<Rightarrow> Field list \<Rightarrow> Field" where
  "Dict k fields = Field k FieldKindDict (VFields fields)"

definition RawJSON :: "string \<Rightarrow> 8 word list \<Rightarrow> Field" where
  "RawJSON k json = Field k FieldKindRawJSON (VBytes json)"

definition Hex :: "string \<Rightarrow> 8 word list \<Rightarrow> Field" where
  "Hex k b = Field k FieldKindHexBytes (VBytes b)"

definition LazyFields :: "(Context \<Rightarrow> Field list) option \<Rightarrow> Field" where
  "LazyFields fn = (case fn of None \<Rightarrow> zero_Field
                    | Some g \<Rightarrow> Field '''' FieldKindLazyFields (VFuncCtx g))"

definition Lazy :: "(unit \<Rightarrow> Field list) option \<Rightarrow> Field" where
  "Lazy fn = (case fn of None \<Rightarrow> zero_Field
              | Some g \<Rightarrow> LazyFields (Some (\<lambda>ctx. g ())))"

definition Timestamp :: "Time \<Rightarrow> Field" where
  "Timestamp t = Field TimestampKey FieldKindTimestamp (VTime t)"

definition TimestampAt :: "string \<Rightarrow> Time \<Rightarrow> Field" where
  "TimestampAt k t = Field k FieldKindTimestamp (VTime t)"

text \<open>
  \<^verbatim>\<open>From\<close> is a type switch on the dynamic type of \<^verbatim>\<open>v\<close>. A nil interface matches no case
  and takes the default; the \<^verbatim>\<open>error\<close> case binds a non-nil error.
\<close>

fun From :: "string \<Rightarrow> goval \<Rightarrow> Field" where
  "From k (VString t) = String k t"
| "From k (VBool t) = Bool k t"
| "From k (VInt t) = Int_Field k t"
| "From k (VInt64 t) = Int64 k t"
| "From k (VUint t) = Uint k t"
| "From k (VUint64 t) = Uint64 k t"
| "From k (VFloat64 t) = Float64 k t"
| "From k (VTime t) = TimeField k t"
| "From k (VDuration t) = Duration k t"
| "From k (VError t) = NamedError k (Some t)"
| "From k v = Any k v"

section \<open>Translation to zap (backends/zapx)\<close>

text \<open>
  A failed type assertion \<^verbatim>\<open>f.Value.(T)\<close> panics; the panic is a value of the model.
  \<open>OutOfFuel\<close> is not a behaviour of the code: it is the model's answer when the bound on
  the nesting of lazy producers is used up.
\<close>

datatype error = PanicTypeAssertion | OutOfFuel

definition bindE :: "error + 'a \<Rightarrow> ('a \<Rightarrow> error + 'b) \<Rightarrow> error + 'b" where
  "bindE x k = (case x of Inl e \<Rightarrow> Inl e | Inr v \<Rightarrow> k v)"

fun assert_string :: "goval \<Rightarrow> error + string" where
  "assert_string (VString s) = Inr s"
| "assert_string _ = Inl PanicTypeAssertion"

fun assert_bool :: "goval \<Rightarrow> error + bool" where
  "assert_bool (VBool b) = Inr b"
| "assert_bool _ = Inl PanicTypeAssertion"

fun assert_int64 :: "goval \<Rightarrow> error + 64 word" where
  "assert_int64 (VInt64 i) = Inr i"
| "assert_int64 _ = Inl PanicTypeAssertion"

fun assert_uint64 :: "goval \<Rightarrow> error + 64 word" where
  "assert_uint64 (VUint64 i) = Inr i"
| "assert_uint64 _ = Inl PanicTypeAssertion"

fun assert_float64 :: "goval \<Rightarrow> error + 64 word" where
  "assert_float64 (VFloat64 x) = Inr x"
| "assert_float64 _ = Inl PanicTypeAssertion"

fun assert_Duration :: "goval \<Rightarrow> error + 64 word" where
  "assert_Duration (VDuration d) = Inr d"
| "assert_Duration _ = Inl PanicTypeAssertion"

fun assert_Time :: "goval \<Rightarrow> error + Time" where
  "assert_Time (VTime t) = Inr t"
| "assert_Time _ = Inl PanicTypeAssertion"

fun assert_error :: "goval \<Rightarrow> error + goerror" where
  "assert_error (VError e) = Inr e"
| "assert_error _ = Inl PanicTypeAssertion"

fun assert_strings :: "goval \<Rightarrow> error + string list" where
  "assert_strings (VStrings xs) = Inr xs"
| "assert_strings _ = Inl PanicTypeAssertion"

fun assert_bools :: "goval \<Rightarrow> error + bool list" where
  "assert_bools (VBools xs) = Inr xs"
| "assert_bools _ = Inl PanicTypeAssertion"

fun assert_int64s :: "goval \<Rightarrow> error + 64 word list" where
  "assert_int64s (VInt64s xs) = Inr xs"
| "assert_int64s _ = Inl PanicTypeAssertion"

fun assert_uint64s :: "goval \<Rightarrow> error + 64 word list" where
  "assert_uint64s (VUint64s xs) = Inr xs"
| "assert_uint64s _ = Inl PanicTypeAssertion"

fun assert_float64s :: "goval \<Rightarrow> error + 64 word list" where
  "assert_float64s (VFloat64s xs) = Inr xs"
| "assert_float64s _ = Inl PanicTypeAssertion"

fun assert_errors :: "goval \<Rightarrow> error + goerror option list" where
  "assert_errors (VErrors xs) = Inr xs"
| "assert_errors _ = Inl PanicTypeAssertion"

fun assert_bytes :: "goval \<Rightarrow> error + 8 word list" where
  "assert_bytes (VBytes b) = Inr b"
| "assert_bytes _ = Inl PanicTypeAssertion"

fun assert_Fields :: "goval \<Rightarrow> error + Field list" where
  "assert_Fields (VFields fs) = Inr fs"
| "assert_Fields _ = Inl PanicTypeAssertion"

fun assert_func :: "goval \<Rightarrow> error + (unit \<Rightarrow> Field list)" where
  "assert_func (VFunc fn) = Inr fn"
| "assert_func _ = Inl PanicTypeAssertion"

text \<open>\<^verbatim>\<open>hex.EncodeToString\<close> of the standard library: two lowercase digits per byte.\<close>

definition hexdigit :: "8 word \<Rightarrow> char" where
  "hexdigit n = ''0123456789abcdef'' ! unat (n AND 15)"

fun hex_EncodeToString :: "8 word list \<Rightarrow> string" where
  "hex_EncodeToString [] = []"
| "hex_EncodeToString (b # bs) = hexdigit (drop_bit 4 b) # hexdigit b # hex_EncodeToString bs"

text \<open>
  What a translation does besides returning: it reads the wall clock (\<^verbatim>\<open>time.Now()\<close>) and it
  calls lazy producers. \<open>reads\<close> counts the clock readings and \<open>calls\<close> the producer calls
  made so far; the clock is the sequence \<open>clk\<close> of its successive readings.
\<close>

record tstate =
  reads :: nat
  calls :: nat

definition time_Now :: "(nat \<Rightarrow> Time) \<Rightarrow> tstate \<Rightarrow> Time \<times> tstate" where
  "time_Now clk st = (clk (reads st), st\<lparr>reads := Suc (reads st)\<rparr>)"

text \<open>The \<^verbatim>\<open>*zap.Logger\<close>, of which the translation uses \<^verbatim>\<open>l.Core().Enabled(lvl)\<close> only;
  \<^verbatim>\<open>zapcore.Level\<close> is an \<^verbatim>\<open>int8\<close>.\<close>

record Logger =
  Core_Enabled :: "8 word \<Rightarrow> bool"

text \<open>
  Modelled from the spec: the method \<^verbatim>\<open>IsSkip\<close> of \<^verbatim>\<open>logstox.Field\<close>. \<^verbatim>\<open>toZapFields\<close> and
  \<^verbatim>\<open>dictMarshaler\<close> take their fields as \<^verbatim>\<open>logstox.Field\<close> and call \<^verbatim>\<open>f.IsSkip()\<close> on them, and no
  source file of package \<^verbatim>\<open>logstox\<close> declares that type or its methods; the \<^verbatim>\<open>IsSkip\<close> above
  belongs to \<^verbatim>\<open>fields.Field\<close>. The specification has \<^verbatim>\<open>IsZero\<close> and \<^verbatim>\<open>IsSkip\<close> expose whether the
  Field is the no-op marker, and the no-op Field contribute nothing to the output. The
  struct, its kinds and \<^verbatim>\<open>Kind()\<close> are taken as in fields/fields.go; the translation names
  the kinds one by one.
\<close>

definition logstox_Field_IsSkip :: "Field \<Rightarrow> bool" where
  "logstox_Field_IsSkip f = (kind f = FieldKindInvalid)"

text \<open>
  The \<^verbatim>\<open>switch f.Kind()\<close> of \<^verbatim>\<open>toZapFields\<close> without its lazy case: every other case appends
  one zap field to \<^verbatim>\<open>out\<close>.
\<close>

definition toZapFields_switch :: "(nat \<Rightarrow> Time) \<Rightarrow> Field \<Rightarrow> tstate \<Rightarrow> error + (ZapField \<times> tstate)" where
  "toZapFields_switch clk f st =
    (if Kind f = FieldKindDict then
       bindE (assert_Fields (Value f)) (\<lambda>fs. Inr (ZapObject (Key f) (dictMarshaler fs), st))
     else if Kind f = FieldKindRawJSON then
       bindE (assert_bytes (Value f)) (\<lambda>b. Inr (ZapAny (Key f) (VRawMessage b), st))
     else if Kind f = FieldKindHexBytes then
       bindE (assert_bytes (Value f)) (\<lambda>b. Inr (ZapString (Key f) (hex_EncodeToString b), st))
     else if Kind f = FieldKindTimestamp then
       bindE (assert_Time (Value f)) (\<lambda>t.
         if t = 0 then (case time_Now clk st of (t', st') \<Rightarrow> Inr (ZapTime (Key f) t', st'))
         else Inr (ZapTime (Key f) t, st))
     else if Kind f = FieldKindString then
       bindE (assert_string (Value f)) (\<lambda>v. Inr (ZapString (Key f) v, st))
     else if Kind f = FieldKindBool then
       bindE (assert_bool (Value f)) (\<lambda>v. Inr (ZapBool (Key f) v, st))
     else if Kind f = FieldKindInt64 then
       bindE (assert_int64 (Value f)) (\<lambda>v. Inr (ZapInt64 (Key f) v, st))
     else if Kind f = FieldKindUint64 then
       bindE (assert_uint64 (Value f)) (\<lambda>v. Inr (ZapUint64 (Key f) v, st))
     else if Kind f = FieldKindFloat64 then
       bindE (assert_float64 (Value f)) (\<lambda>v. Inr (ZapFloat64 (Key f) v, st))
     else if Kind f = FieldKindDuration then
       bindE (assert_Duration (Value f)) (\<lambda>v. Inr (ZapDuration (Key f) v, st))
     else if Kind f = FieldKindTime then
       bindE (assert_Time (Value f)) (\<lambda>v. Inr (ZapTime (Key f) v, st))
     else if Kind f = FieldKindError then
       bindE (assert_error (Value f)) (\<lambda>err.
         if Key f = '''' \<or> Key f = ErrorKey then Inr (ZapError err, st)
         else Inr (ZapNamedError (Key f) err, st))
     else if Kind f = FieldKindStrings then
       bindE (assert_strings (Value f)) (\<lambda>v. Inr (ZapStrings (Key f) v, st))
     else if Kind f = FieldKindBools then
       bindE (assert_bools (Value f)) (\<lambda>v. Inr (ZapBools (Key f) v, st))
     else if Kind f = FieldKindInt64s then
       bindE (assert_int64s (Value f)) (\<lambda>v. Inr (ZapInt64s (Key f) v, st))
     else if Kind f = FieldKindUint64s then
       bindE (assert_uint64s (Value f)) (\<lambda>v. Inr (ZapUint64s (Key f) v, st))
     else if Kind f = FieldKindFloat64s then
       bindE (assert_float64s (Value f)) (\<lambda>v. Inr (ZapFloat64s (Key f) v, st))
     else if Kind f = FieldKindErrors then
       bindE (assert_errors (Value f)) (\<lambda>v. Inr (ZapErrors (Key f) v, st))
     else if Kind f = FieldKindAny then
       Inr (ZapAny (Key f) (Value f), st)
     else Inr (ZapSkip, st))"

text \<open>
  \<^verbatim>\<open>toZapFields(l, lvl, fs...)\<close>: the loop over \<^verbatim>\<open>fs\<close>, returning \<^verbatim>\<open>out\<close> and the state. A lazy
  producer may return lazy fields again, so the recursion into its result is bounded by
  \<open>fuel\<close>; the loop itself is recursion on the list.
\<close>

fun toZapFields :: "nat \<Rightarrow> (nat \<Rightarrow> Time) \<Rightarrow> Logger \<Rightarrow> 8 word \<Rightarrow> Field list \<Rightarrow> tstate
    \<Rightarrow> error + (ZapField list \<times> tstate)" where
  "toZapFields fuel clk l lvl [] st = Inr ([], st)"
| "toZapFields fuel clk l lvl (f # fs) st =
    (if logstox_Field_IsSkip f then toZapFields fuel clk l lvl fs st
     else if Kind f = FieldKindLazyValue then
       (if \<not> Core_Enabled l lvl then toZapFields fuel clk l lvl fs st
        else
          (case assert_func (Value f) of Inl e \<Rightarrow> Inl e
           | Inr fn \<Rightarrow>
             (case fuel of 0 \<Rightarrow> Inl OutOfFuel
              | Suc n \<Rightarrow>
                (case toZapFields n clk l lvl (fn ()) (st\<lparr>calls := Suc (calls st)\<rparr>) of
                   Inl e \<Rightarrow> Inl e
                 | Inr (sub, st1) \<Rightarrow>
                   (case toZapFields fuel clk l lvl fs st1 of Inl e \<Rightarrow> Inl e
                    | Inr (rest, st2) \<Rightarrow> Inr (sub @ rest, st2))))))
     else
       (case toZapFields_switch clk f st of Inl e \<Rightarrow> Inl e
        | Inr (z, st1) \<Rightarrow>
          (case toZapFields fuel clk l lvl fs st1 of Inl e \<Rightarrow> Inl e
           | Inr (rest, st2) \<Rightarrow> Inr (z # rest, st2))))"

subsection \<open>Nested objects: \<^verbatim>\<open>dictMarshaler\<close>\<close>

text \<open>
  \<^verbatim>\<open>MarshalLogObject\<close> writes to a \<^verbatim>\<open>zapcore.ObjectEncoder\<close>. The encoder is the list of the
  calls made on it; \<^verbatim>\<open>AddArray\<close> and \<^verbatim>\<open>AddObject\<close> run the marshaler they are given, so their
  entry holds what that marshaler wrote.
\<close>

datatype ArrayEntry =
    AppendString string
  | AppendBool bool
  | AppendInt64 "64 word"
  | AppendUint64 "64 word"
  | AppendFloat64 "64 word"

datatype ObjectEntry =
    AddString string string
  | AddBool string bool
  | AddInt64 string "64 word"
  | AddUint64 string "64 word"
  | AddFloat64 string "64 word"
  | AddDuration string "64 word"
  | AddTime string Time
  | AddArray string "ArrayEntry list"
  | AddObject string "ObjectEntry list"
  | AddReflected string goval

definition stringArray_MarshalLogArray :: "string list \<Rightarrow> ArrayEntry list" where
  "stringArray_MarshalLogArray a = map AppendString a"

definition boolArray_MarshalLogArray :: "bool list \<Rightarrow> ArrayEntry list" where
  "boolArray_MarshalLogArray a = map AppendBool a"

definition int64Array_MarshalLogArray :: "64 word list \<Rightarrow> ArrayEntry list" where
  "int64Array_MarshalLogArray a = map AppendInt64 a"

definition uint64Array_MarshalLogArray :: "64 word list \<Rightarrow> ArrayEntry list" where
  "uint64Array_MarshalLogArray a = map AppendUint64 a"

definition float64Array_MarshalLogArray :: "64 word list \<Rightarrow> ArrayEntry list" where
  "float64Array_MarshalLogArray a = map AppendFloat64 a"

definition errorArray_MarshalLogArray :: "goerror option list \<Rightarrow> ArrayEntry list" where
  "errorArray_MarshalLogArray a =
     map (\<lambda>v. case v of Some e \<Rightarrow> AppendString (Error_msg e) | None \<Rightarrow> AppendString ''<nil>'') a"

text \<open>
  The \<^verbatim>\<open>switch f.Kind()\<close> of \<^verbatim>\<open>MarshalLogObject\<close> without its Dict case: the entries one field
  adds. The lazy case and the default add nothing.
\<close>

definition MarshalLogObject_switch :: "(nat \<Rightarrow> Time) \<Rightarrow> Field \<Rightarrow> tstate
    \<Rightarrow> error + (ObjectEntry list \<times> tstate)" where
  "MarshalLogObject_switch clk f st =
    (if Kind f = FieldKindString then
       bindE (assert_string (Value f)) (\<lambda>v. Inr ([AddString (Key f) v], st))
     else if Kind f = FieldKindBool then
       bindE (assert_bool (Value f)) (\<lambda>v. Inr ([AddBool (Key f) v], st))
     else if Kind f = FieldKindInt64 then
       bindE (assert_int64 (Value f)) (\<lambda>v. Inr ([AddInt64 (Key f) v], st))
     else if Kind f = FieldKindUint64 then
       bindE (assert_uint64 (Value f)) (\<lambda>v. Inr ([AddUint64 (Key f) v], st))
     else if Kind f = FieldKindFloat64 then
       bindE (assert_float64 (Value f)) (\<lambda>v. Inr ([AddFloat64 (Key f) v], st))
     else if Kind f = FieldKindDuration then
       bindE (assert_Duration (Value f)) (\<lambda>v. Inr ([AddDuration (Key f) v], st))
     else if Kind f = FieldKindTime then
       bindE (assert_Time (Value f)) (\<lambda>v. Inr ([AddTime (Key f) v], st))
     else if Kind f = FieldKindError then
       bindE (assert_error (Value f)) (\<lambda>err. Inr ([AddString (Key f) (Error_msg err)], st))
     else if Kind f = FieldKindStrings then
       bindE (assert_strings (Value f))
         (\<lambda>v. Inr ([AddArray (Key f) (stringArray_MarshalLogArray v)], st))
     else if Kind f = FieldKindBools then
       bindE (assert_bools (Value f))
         (\<lambda>v. Inr ([AddArray (Key f) (boolArray_MarshalLogArray v)], st))
     else if Kind f = FieldKindInt64s then
       bindE (assert_int64s (Value f))
         (\<lambda>v. Inr ([AddArray (Key f) (int64Array_MarshalLogArray v)], st))
     else if Kind f = FieldKindUint64s then
       bindE (assert_uint64s (Value f))
         (\<lambda>v. Inr ([AddArray (Key f) (uint64Array_MarshalLogArray v)], st))
     else if Kind f = FieldKindFloat64s then
       bindE (assert_float64s (Value f))
         (\<lambda>v. Inr ([AddArray (Key f) (float64Array_MarshalLogArray v)], st))
     else if Kind f = FieldKindErrors then
       bindE (assert_errors (Value f))
         (\<lambda>v. Inr ([AddArray (Key f) (errorArray_MarshalLogArray v)], st))
     else if Kind f = FieldKindRawJSON then
       bindE (assert_bytes (Value f)) (\<lambda>b. Inr ([AddReflected (Key f) (VRawMessage b)], st))
     else if Kind f = FieldKindHexBytes then
       bindE (assert_bytes (Value f)) (\<lambda>b. Inr ([AddString (Key f) (hex_EncodeToString b)], st))
     else if Kind f = FieldKindTimestamp then
       bindE (assert_Time (Value f)) (\<lambda>t.
         if t = 0 then (case time_Now clk st of (t', st') \<Rightarrow> Inr ([AddTime (Key f) t'], st'))
         else Inr ([AddTime (Key f) t], st))
     else if Kind f = FieldKindAny then
       Inr ([AddReflected (Key f) (Value f)], st)
     else if Kind f = FieldKindLazyValue then
       Inr ([], st)
     else Inr ([], st))"

text \<open>
  \<^verbatim>\<open>func (d dictMarshaler) MarshalLogObject(enc)\<close>, on the fields \<^verbatim>\<open>d.fs\<close>. The Dict case
  recurses into the payload, which is smaller than the field that carries it.
\<close>

function dictMarshaler_MarshalLogObject :: "(nat \<Rightarrow> Time) \<Rightarrow> Field list \<Rightarrow> tstate
    \<Rightarrow> error + (ObjectEntry list \<times> tstate)" where
  "dictMarshaler_MarshalLogObject clk [] st = Inr ([], st)"
| "dictMarshaler_MarshalLogObject clk (f # fs) st =
    (if logstox_Field_IsSkip f then dictMarshaler_MarshalLogObject clk fs st
     else if Kind f = FieldKindDict then
       (case assert_Fields (Value f) of Inl e \<Rightarrow> Inl e
        | Inr sub \<Rightarrow>
          (case dictMarshaler_MarshalLogObject clk sub st of Inl e \<Rightarrow> Inl e
           | Inr (inner, st1) \<Rightarrow>
             (case dictMarshaler_MarshalLogObject clk fs st1 of Inl e \<Rightarrow> Inl e
              | Inr (rest, st2) \<Rightarrow> Inr (AddObject (Key f) inner # rest, st2))))
     else
       (case MarshalLogObject_switch clk f st of Inl e \<Rightarrow> Inl e
        | Inr (ents, st1) \<Rightarrow>
          (case dictMarshaler_MarshalLogObject clk fs st1 of Inl e \<Rightarrow> Inl e
           | Inr (rest, st2) \<Rightarrow> Inr (ents @ rest, st2))))"
  by pat_completeness auto
termination
proof -
  have payload_smaller: "size_list size sub < size f"
    if "assert_Fields (Value f) = Inr sub" for f sub
    using that by (cases f; cases "Value f") auto
  show ?thesis
    by (relation "measure (\<lambda>(clk, fs, st). size_list size fs)")
       (auto dest: payload_smaller)
qed

subsection \<open>The escape hatch\<close>

definition Native :: "ZapField \<Rightarrow> Field" where
  "Native zf = Any ''__zap_native__'' (VNative zf)"

section \<open>The single-field translation (backend/zapx)\<close>

text \<open>
  \<^verbatim>\<open>func ToZap(f fields.Field) zap.Field\<close>. It reads the clock at most once; \<open>now\<close> is that
  reading.
\<close>

definition ToZap :: "Time \<Rightarrow> Field \<Rightarrow> error + ZapField" where
  "ToZap now f =
    (if Kind f = FieldKindString then
       bindE (assert_string (Value f)) (\<lambda>v. Inr (ZapString (Key f) v))
     else if Kind f = FieldKindBool then
       bindE (assert_bool (Value f)) (\<lambda>v. Inr (ZapBool (Key f) v))
     else if Kind f = FieldKindInt64 then
       bindE (assert_int64 (Value f)) (\<lambda>v. Inr (ZapInt64 (Key f) v))
     else if Kind f = FieldKindUint64 then
       bindE (assert_uint64 (Value f)) (\<lambda>v. Inr (ZapUint64 (Key f) v))
     else if Kind f = FieldKindFloat64 then
       bindE (assert_float64 (Value f)) (\<lambda>v. Inr (ZapFloat64 (Key f) v))
     else if Kind f = FieldKindDuration then
       bindE (assert_Duration (Value f)) (\<lambda>v. Inr (ZapDuration (Key f) v))
     else if Kind f = FieldKindTime then
       bindE (assert_Time (Value f)) (\<lambda>v. Inr (ZapTime (Key f) v))
     else if Kind f = FieldKindError then
       (if Key f = '''' \<or> Key f = ErrorKey then
          bindE (assert_error (Value f)) (\<lambda>err. Inr (ZapError err))
        else bindE (assert_error (Value f)) (\<lambda>err. Inr (ZapNamedError (Key f) err)))
     else if Kind f = FieldKindStrings then
       bindE (assert_strings (Value f)) (\<lambda>v. Inr (ZapStrings (Key f) v))
     else if Kind f = FieldKindBools then
       bindE (assert_bools (Value f)) (\<lambda>v. Inr (ZapBools (Key f) v))
     else if Kind f = FieldKindInt64s then
       bindE (assert_int64s (Value f)) (\<lambda>v. Inr (ZapInt64s (Key f) v))
     else if Kind f = FieldKindUint64s then
       bindE (assert_uint64s (Value f)) (\<lambda>v. Inr (ZapUint64s (Key f) v))
     else if Kind f = FieldKindFloat64s then
       bindE (assert_float64s (Value f)) (\<lambda>v. Inr (ZapFloat64s (Key f) v))
     else if Kind f = FieldKindErrors then
       bindE (assert_errors (Value f)) (\<lambda>v. Inr (ZapErrors (Key f) v))
     else if Kind f = FieldKindRawJSON then
       bindE (assert_bytes (Value f)) (\<lambda>b. Inr (ZapAny (Key f) (VRawMessage b)))
     else if Kind f = FieldKindHexBytes then
       bindE (assert_bytes (Value f)) (\<lambda>b. Inr (ZapString (Key f) (hex_EncodeToString b)))
     else if Kind f = FieldKindDict then
       bindE (assert_Fields (Value f)) (\<lambda>fs. Inr (ZapObject (Key f) (dict fs)))
     else if Kind f = FieldKindTimestamp then
       bindE (assert_Time (Value f)) (\<lambda>t.
         if t = 0 then Inr (ZapTime (Key f) now) else Inr (ZapTime (Key f) t))
     else if Kind f = FieldKindAny then
       Inr (ZapAny (Key f) (Value f))
     else Inr ZapSkip)"
section \<open>Notions used in the properties\<close>

text \<open>
  The key of a zap field, as the constructors of the zap library set it: each stores the
  key it is given, \<^verbatim>\<open>zap.Error(err)\<close> is \<^verbatim>\<open>zap.NamedError("error", err)\<close>, and \<^verbatim>\<open>zap.Skip()\<close> has
  the empty key.
\<close>

fun ZapField_Key :: "ZapField \<Rightarrow> string" where
  "ZapField_Key ZapSkip = ''''"
| "ZapField_Key (ZapString k v) = k"
| "ZapField_Key (ZapBool k v) = k"
| "ZapField_Key (ZapInt64 k v) = k"
| "ZapField_Key (ZapUint64 k v) = k"
| "ZapField_Key (ZapFloat64 k v) = k"
| "ZapField_Key (ZapDuration k v) = k"
| "ZapField_Key (ZapTime k v) = k"
| "ZapField_Key (ZapError err) = ''error''"
| "ZapField_Key (ZapNamedError k err) = k"
| "ZapField_Key (ZapStrings k v) = k"
| "ZapField_Key (ZapBools k v) = k"
| "ZapField_Key (ZapInt64s k v) = k"
| "ZapField_Key (ZapUint64s k v) = k"
| "ZapField_Key (ZapFloat64s k v) = k"
| "ZapField_Key (ZapErrors k v) = k"
| "ZapField_Key (ZapObject k m) = k"
| "ZapField_Key (ZapAny k v) = k"

text \<open>
  The invariant of the value model: the kind of a Field determines the type of its payload
  (the table of kinds of the specification). \<open>agrees f\<close> says so of one field, with no
  demand on the kinds Invalid and Any and on a kind outside the enumeration.
\<close>

definition agrees :: "Field \<Rightarrow> bool" where
  "agrees f =
    (if Kind f = FieldKindString then (case Value f of VString _ \<Rightarrow> True | _ \<Rightarrow> False)
     else if Kind f = FieldKindBool then (case Value f of VBool _ \<Rightarrow> True | _ \<Rightarrow> False)
     else if Kind f = FieldKindInt64 then (case Value f of VInt64 _ \<Rightarrow> True | _ \<Rightarrow> False)
     else if Kind f = FieldKindUint64 then (case Value f of VUint64 _ \<Rightarrow> True | _ \<Rightarrow> False)
     else if Kind f = FieldKindFloat64 then (case Value f of VFloat64 _ \<Rightarrow> True | _ \<Rightarrow> False)
     else if Kind f = FieldKindTime then (case Value f of VTime _ \<Rightarrow> True | _ \<Rightarrow> False)
     else if Kind f = FieldKindDuration then (case Value f of VDuration _ \<Rightarrow> True | _ \<Rightarrow> False)
     else if Kind f = FieldKindError then (case Value f of VError _ \<Rightarrow> True | _ \<Rightarrow> False)
     else if Kind f = FieldKindStrings then (case Value f of VStrings _ \<Rightarrow> True | _ \<Rightarrow> False)
     else if Kind f = FieldKindBools then (case Value f of VBools _ \<Rightarrow> True | _ \<Rightarrow> False)
     else if Kind f = FieldKindInt64s then (case Value f of VInt64s _ \<Rightarrow> True | _ \<Rightarrow> False)
     else if Kind f = FieldKindUint64s then (case Value f of VUint64s _ \<Rightarrow> True | _ \<Rightarrow> False)
     else if Kind f = FieldKindFloat64s then (case Value f of VFloat64s _ \<Rightarrow> True | _ \<Rightarrow> False)
     else if Kind f = FieldKindErrors then (case Value f of VErrors _ \<Rightarrow> True | _ \<Rightarrow> False)
     else if Kind f = FieldKindDict then (case Value f of VFields _ \<Rightarrow> True | _ \<Rightarrow> False)
     else if Kind f = FieldKindRawJSON then (case Value f of VBytes _ \<Rightarrow> True | _ \<Rightarrow> False)
     else if Kind f = FieldKindHexBytes then (case Value f of VBytes _ \<Rightarrow> True | _ \<Rightarrow> False)
     else if Kind f = FieldKindLazyFields then (case Value f of VFuncCtx _ \<Rightarrow> True | _ \<Rightarrow> False)
     else if Kind f = FieldKindLazyValue then (case Value f of VFunc _ \<Rightarrow> True | _ \<Rightarrow> False)
     else if Kind f = FieldKindTimestamp then (case Value f of VTime _ \<Rightarrow> True | _ \<Rightarrow> False)
     else True)"



section \<open>Properties\<close>

lemmas FieldKind_defs =
  FieldKindInvalid_def FieldKindAny_def FieldKindString_def FieldKindBool_def
  FieldKindInt64_def FieldKindUint64_def FieldKindFloat64_def FieldKindTime_def
  FieldKindDuration_def FieldKindError_def FieldKindStrings_def FieldKindBools_def
  FieldKindInt64s_def FieldKindUint64s_def FieldKindFloat64s_def FieldKindErrors_def
  FieldKindDict_def FieldKindRawJSON_def FieldKindHexBytes_def FieldKindLazyFields_def
  FieldKindLazyValue_def FieldKindTimestamp_def

lemmas constructor_defs =
  Any_def String_def Bool_def Int_Field_def Int64_def Uint_def Uint64_def Float64_def
  TimeField_def Duration_def Error_def NamedError_def Strings_def Bools_def Int64s_def
  Uint64s_def Float64s_def Errors_def Dict_def RawJSON_def Hex_def LazyFields_def Lazy_def
  Timestamp_def TimestampAt_def Nop_def zero_Field_def Native_def

lemmas eval_defs =
  logstox_Field_IsSkip_def toZapFields_switch_def MarshalLogObject_switch_def agrees_def
  IsZero_def Kind_def FieldKind_defs constructor_defs time_Now_def ErrorKey_def
  TimestampKey_def

subsection \<open>Sequences of fields\<close>

text \<open>
  Both loops treat their fields one after the other, each from the state the one before
  has left: the translation of \<open>xs @ ys\<close> is the translation of \<open>xs\<close> followed by that of
  \<open>ys\<close>, and the first error ends it.
\<close>

lemma bindE_simps [simp]:
  "bindE (Inl e) k = Inl e" "bindE (Inr v) k = k v"
  by (simp_all add: bindE_def)

lemma seq_assoc:
  "bindE x (\<lambda>(o1, s1).
     bindE (bindE (g s1) (\<lambda>(a, s). bindE (h s) (\<lambda>(b, s'). Inr (a @ b, s'))))
       (\<lambda>(o2, s2). Inr (o1 @ o2, s2)))
   = bindE (bindE x (\<lambda>(a, s). bindE (g s) (\<lambda>(b, s'). Inr (a @ b, s'))))
       (\<lambda>(o1, s1). bindE (h s1) (\<lambda>(o2, s2). Inr (o1 @ o2, s2)))"
  by (auto simp: bindE_def split: sum.splits prod.splits)

lemma toZapFields_Cons:
  "toZapFields fuel clk l lvl (f # fs) st =
     bindE (toZapFields fuel clk l lvl [f] st) (\<lambda>(o1, s1).
       bindE (toZapFields fuel clk l lvl fs s1) (\<lambda>(o2, s2). Inr (o1 @ o2, s2)))"
  by (auto simp: bindE_def split: sum.splits nat.splits prod.splits)

lemma toZapFields_append:
  "toZapFields fuel clk l lvl (xs @ ys) st =
     bindE (toZapFields fuel clk l lvl xs st) (\<lambda>(o1, s1).
       bindE (toZapFields fuel clk l lvl ys s1) (\<lambda>(o2, s2). Inr (o1 @ o2, s2)))"
proof (induction xs arbitrary: st)
  case Nil
  show ?case by (cases "toZapFields fuel clk l lvl ys st") auto
next
  case (Cons f xs)
  have "toZapFields fuel clk l lvl ((f # xs) @ ys) st =
     bindE (toZapFields fuel clk l lvl [f] st) (\<lambda>(o1, s1).
       bindE (toZapFields fuel clk l lvl (xs @ ys) s1) (\<lambda>(o2, s2). Inr (o1 @ o2, s2)))"
    using toZapFields_Cons [of fuel clk l lvl f "xs @ ys" st] by simp
  also have "\<dots> = bindE (toZapFields fuel clk l lvl [f] st) (\<lambda>(o1, s1).
       bindE (bindE (toZapFields fuel clk l lvl xs s1) (\<lambda>(a, s).
                bindE (toZapFields fuel clk l lvl ys s) (\<lambda>(b, s'). Inr (a @ b, s'))))
         (\<lambda>(o2, s2). Inr (o1 @ o2, s2)))"
    by (simp only: Cons.IH)
  also have "\<dots> = bindE (bindE (toZapFields fuel clk l lvl [f] st) (\<lambda>(a, s).
                bindE (toZapFields fuel clk l lvl xs s) (\<lambda>(b, s'). Inr (a @ b, s'))))
       (\<lambda>(o1, s1). bindE (toZapFields fuel clk l lvl ys s1) (\<lambda>(o2, s2). Inr (o1 @ o2, s2)))"
    by (rule seq_assoc)
  also have "\<dots> = bindE (toZapFields fuel clk l lvl (f # xs) st)
       (\<lambda>(o1, s1). bindE (toZapFields fuel clk l lvl ys s1) (\<lambda>(o2, s2). Inr (o1 @ o2, s2)))"
    by (simp only: toZapFields_Cons [of fuel clk l lvl f xs, symmetric])
  finally show ?case .
qed

lemma MarshalLogObject_Cons:
  "dictMarshaler_MarshalLogObject clk (f # fs) st =
     bindE (dictMarshaler_MarshalLogObject clk [f] st) (\<lambda>(o1, s1).
       bindE (dictMarshaler_MarshalLogObject clk fs s1) (\<lambda>(o2, s2). Inr (o1 @ o2, s2)))"
  by (auto simp: bindE_def split: sum.splits nat.splits prod.splits)

lemma MarshalLogObject_append:
  "dictMarshaler_MarshalLogObject clk (xs @ ys) st =
     bindE (dictMarshaler_MarshalLogObject clk xs st) (\<lambda>(o1, s1).
       bindE (dictMarshaler_MarshalLogObject clk ys s1) (\<lambda>(o2, s2). Inr (o1 @ o2, s2)))"
proof (induction xs arbitrary: st)
  case Nil
  show ?case by (cases "dictMarshaler_MarshalLogObject clk ys st") auto
next
  case (Cons f xs)
  have "dictMarshaler_MarshalLogObject clk ((f # xs) @ ys) st =
     bindE (dictMarshaler_MarshalLogObject clk [f] st) (\<lambda>(o1, s1).
       bindE (dictMarshaler_MarshalLogObject clk (xs @ ys) s1) (\<lambda>(o2, s2). Inr (o1 @ o2, s2)))"
    using MarshalLogObject_Cons [of clk f "xs @ ys" st] by simp
  also have "\<dots> = bindE (dictMarshaler_MarshalLogObject clk [f] st) (\<lambda>(o1, s1).
       bindE (bindE (dictMarshaler_MarshalLogObject clk xs s1) (\<lambda>(a, s).
                bindE (dictMarshaler_MarshalLogObject clk ys s) (\<lambda>(b, s'). Inr (a @ b, s'))))
         (\<lambda>(o2, s2). Inr (o1 @ o2, s2)))"
    by (simp only: Cons.IH)
  also have "\<dots> = bindE (bindE (dictMarshaler_MarshalLogObject clk [f] st) (\<lambda>(a, s).
                bindE (dictMarshaler_MarshalLogObject clk xs s) (\<lambda>(b, s'). Inr (a @ b, s'))))
       (\<lambda>(o1, s1). bindE (dictMarshaler_MarshalLogObject clk ys s1)
          (\<lambda>(o2, s2). Inr (o1 @ o2, s2)))"
    by (rule seq_assoc)
  also have "\<dots> = bindE (dictMarshaler_MarshalLogObject clk (f # xs) st)
       (\<lambda>(o1, s1). bindE (dictMarshaler_MarshalLogObject clk ys s1)
          (\<lambda>(o2, s2). Inr (o1 @ o2, s2)))"
    by (simp only: MarshalLogObject_Cons [of clk f xs, symmetric])
  finally show ?case .
qed



lemma toZapFields_switch_agrees:
  "agrees f \<Longrightarrow> \<exists>z st'. toZapFields_switch clk f st = Inr (z, st')"
  unfolding agrees_def toZapFields_switch_def time_Now_def
  by (cases "Value f") (auto simp: FieldKind_defs split: if_splits)


subsection \<open>Single fields\<close>

lemma bindE_unit:
  "bindE x (\<lambda>(o2, s2). Inr (o2, s2)) = x"
  by (auto simp: bindE_def split: sum.splits)





lemma MarshalLogObject_drop:
  assumes "\<And>s. dictMarshaler_MarshalLogObject clk [f] s = Inr ([], s)"
  shows "dictMarshaler_MarshalLogObject clk (pre @ f # post) st
       = dictMarshaler_MarshalLogObject clk (pre @ post) st"
proof -
  have tl: "dictMarshaler_MarshalLogObject clk (f # post) s
          = dictMarshaler_MarshalLogObject clk post s" for s
    by (subst MarshalLogObject_Cons)
       (simp only: assms bindE_simps prod.case append_Nil bindE_unit)
  show ?thesis
    by (simp only: MarshalLogObject_append [of clk pre "f # post"]
        MarshalLogObject_append [of clk pre post] tl)
qed


lemma unknown_kind_switch:
  "FieldKindTimestamp < Kind f \<Longrightarrow> toZapFields_switch clk f st = Inr (ZapSkip, st)"
  by (auto simp: toZapFields_switch_def FieldKind_defs)

lemma unknown_kind_single:
  "FieldKindTimestamp < Kind f \<Longrightarrow> toZapFields fuel clk l lvl [f] st = Inr ([ZapSkip], st)"
  by (auto simp: logstox_Field_IsSkip_def Kind_def unknown_kind_switch FieldKind_defs)

lemma unknown_kind_marshal:
  "FieldKindTimestamp < Kind f \<Longrightarrow> dictMarshaler_MarshalLogObject clk [f] st = Inr ([], st)"
  by (auto simp: logstox_Field_IsSkip_def Kind_def MarshalLogObject_switch_def FieldKind_defs)

lemma toZapFields_switch_key:
  assumes "toZapFields_switch clk f st = Inr (z, st')"
    and "Kind f \<le> FieldKindTimestamp" and "Kind f \<noteq> FieldKindLazyFields"
    and "Kind f \<noteq> FieldKindLazyValue" and "\<not> IsZero f"
  shows "ZapField_Key z = (if Kind f = FieldKindError \<and> Key f = '''' then ErrorKey else Key f)"
proof -
  have "unat (Kind f) \<le> 21"
    using assms(2) by (simp add: FieldKindTimestamp_def word_le_nat_alt)
  then have "unat (Kind f) \<in> {0,1,2,3,4,5,6,7,8,9,10,11,12,13,14,15,16,17,18,19,20,21}"
    by simp arith
  then have "of_nat (unat (Kind f))
      \<in> (of_nat ` {0,1,2,3,4,5,6,7,8,9,10,11,12,13,14,15,16,17,18,19,20,21} :: 8 word set)"
    by (rule imageI)
  then have k: "Kind f \<in> {0,1,2,3,4,5,6,7,8,9,10,11,12,13,14,15,16,17,18,19,20,21}"
    by simp
  show ?thesis
    using assms(1,3,4,5) k
    unfolding toZapFields_switch_def time_Now_def
    by (cases "Value f")
       (auto simp: FieldKind_defs IsZero_def Kind_def ErrorKey_def bindE_def split: if_splits)
qed

text \<open>
  The lazy case of \<open>toZapFields\<close>, for a field of the kind LazyValue: with the severity
  disabled the producer is not called and the field adds nothing; with the severity
  enabled the producer is called once, and its fields are translated with the same logger
  and level.
\<close>

lemma LazyValue_gating:
  assumes "Kind f = FieldKindLazyValue" and "Value f = VFunc fn"
  shows "\<not> Core_Enabled l lvl \<Longrightarrow> toZapFields fuel clk l lvl [f] st = Inr ([], st)"
    and "Core_Enabled l lvl \<Longrightarrow>
         toZapFields (Suc n) clk l lvl [f] st
         = toZapFields n clk l lvl (fn ()) (st\<lparr>calls := Suc (calls st)\<rparr>)"
  using assms
  by (auto simp: logstox_Field_IsSkip_def Kind_def FieldKind_defs split: sum.splits)

lemma From_kind_payload:
  "Key (From k v) = k
 \<and> Kind (From k v) =
     (case v of VString _ \<Rightarrow> FieldKindString | VBool _ \<Rightarrow> FieldKindBool
      | VInt _ \<Rightarrow> FieldKindInt64 | VInt64 _ \<Rightarrow> FieldKindInt64
      | VUint _ \<Rightarrow> FieldKindUint64 | VUint64 _ \<Rightarrow> FieldKindUint64
      | VFloat64 _ \<Rightarrow> FieldKindFloat64 | VTime _ \<Rightarrow> FieldKindTime
      | VDuration _ \<Rightarrow> FieldKindDuration | VError _ \<Rightarrow> FieldKindError
      | _ \<Rightarrow> FieldKindAny)
 \<and> Value (From k v) =
     (case v of VInt n \<Rightarrow> VInt64 (word_of_int n) | VUint n \<Rightarrow> VUint64 (of_nat n) | _ \<Rightarrow> v)"
  by (cases v) (simp_all add: constructor_defs Kind_def)

subsection \<open>The value model\<close>

text \<open>
  C2. \<open>IsZero\<close> reports the no-op marker, and the claim has \<open>IsSkip\<close> report it too: true of
  the canonical no-op field, false of a field from an unguarded constructor. The code
  returns the negation of \<open>IsZero\<close>, so it is the other way round: \<open>IsSkip\<close> is false of
  \<open>Nop\<close> and of the zero Field and true of the fields that the constructors \<open>String\<close>,
  \<open>Bool\<close>, \<open>Int64\<close> and \<open>Dict\<close> build.
\<close>

theorem IsSkip_negates_IsZero:
  "IsZero Nop \<and> IsSkip Nop = False \<and> IsSkip zero_Field = False
 \<and> IsSkip (String k s) = True \<and> IsSkip (Bool k b) = True
 \<and> IsSkip (Int64 k i) = True \<and> IsSkip (Dict k fs) = True"
  by (simp add: IsSkip_def IsZero_def constructor_defs FieldKind_defs)

text \<open>
  C6, as the claim states it: the payload is exactly the value passed in, for every
  constructor. \<open>Lazy\<close> is the exception. Given a producer \<^verbatim>\<open>func() []Field\<close>, it stores under
  the kind LazyFields a new function of another type, which takes a context and calls the
  producer; the payload is not the producer.
\<close>

theorem Lazy_payload_is_not_the_producer:
  "Kind (Lazy (Some (\<lambda>u. [Nop]))) = FieldKindLazyFields
 \<and> Value (Lazy (Some (\<lambda>u. [Nop]))) = VFuncCtx (\<lambda>ctx. [Nop])
 \<and> Value (Lazy (Some (\<lambda>u. [Nop]))) \<noteq> VFunc (\<lambda>u. [Nop])"
  by (simp add: Lazy_def LazyFields_def Kind_def)

text \<open>
  C6, amended. Every constructor but \<open>Lazy\<close> returns a Field of its documented kind whose
  payload is the value passed in, where the guarded ones (\<open>Error\<close>, \<open>NamedError\<close>,
  \<open>LazyFields\<close>) are given a non-nil argument. \<open>Int\<close> and \<open>Uint\<close> store the 64-bit word
  of the same value, for every value of an \<^verbatim>\<open>int\<close> or \<^verbatim>\<open>uint\<close>. \<open>Lazy\<close> of a producer returns a
  LazyFields field whose payload takes a context and returns what the producer returns.
  On nil, \<open>Error\<close> and \<open>NamedError\<close> return \<open>Nop\<close>, \<open>LazyFields\<close> and \<open>Lazy\<close> the zero
  Field. \<open>From\<close> is total: string, bool, int, int64, uint, uint64, float64, time.Time,
  time.Duration and error go to their kinds, every other value to the kind Any with the
  value itself as payload.
\<close>

theorem constructors_kind_and_payload:
  assumes "- (2 ^ 63) \<le> i" and "i < 2 ^ 63" and "u < 2 ^ 64"
  shows
  "Kind (Any k a) = FieldKindAny \<and> Value (Any k a) = a
 \<and> Kind (String k s) = FieldKindString \<and> Value (String k s) = VString s
 \<and> Kind (Bool k b) = FieldKindBool \<and> Value (Bool k b) = VBool b
 \<and> Kind (Int_Field k i) = FieldKindInt64
 \<and> (\<exists>w. Value (Int_Field k i) = VInt64 w \<and> sint w = i)
 \<and> Kind (Int64 k i64) = FieldKindInt64 \<and> Value (Int64 k i64) = VInt64 i64
 \<and> Kind (Uint k u) = FieldKindUint64
 \<and> (\<exists>w. Value (Uint k u) = VUint64 w \<and> unat w = u)
 \<and> Kind (Uint64 k u64) = FieldKindUint64 \<and> Value (Uint64 k u64) = VUint64 u64
 \<and> Kind (Float64 k x) = FieldKindFloat64 \<and> Value (Float64 k x) = VFloat64 x
 \<and> Kind (TimeField k t) = FieldKindTime \<and> Value (TimeField k t) = VTime t
 \<and> Kind (Duration k d) = FieldKindDuration \<and> Value (Duration k d) = VDuration d
 \<and> Kind (Error (Some e)) = FieldKindError \<and> Value (Error (Some e)) = VError e
 \<and> Key (Error (Some e)) = ErrorKey
 \<and> Kind (NamedError k (Some e)) = FieldKindError \<and> Value (NamedError k (Some e)) = VError e
 \<and> Key (NamedError k (Some e)) = k
 \<and> Error None = Nop \<and> NamedError k None = Nop \<and> Kind Nop = FieldKindInvalid
 \<and> Kind (Strings k ss) = FieldKindStrings \<and> Value (Strings k ss) = VStrings ss
 \<and> Kind (Bools k bs) = FieldKindBools \<and> Value (Bools k bs) = VBools bs
 \<and> Kind (Int64s k is) = FieldKindInt64s \<and> Value (Int64s k is) = VInt64s is
 \<and> Kind (Uint64s k us) = FieldKindUint64s \<and> Value (Uint64s k us) = VUint64s us
 \<and> Kind (Float64s k xs) = FieldKindFloat64s \<and> Value (Float64s k xs) = VFloat64s xs
 \<and> Kind (Errors k es) = FieldKindErrors \<and> Value (Errors k es) = VErrors es
 \<and> Kind (Dict k fs) = FieldKindDict \<and> Value (Dict k fs) = VFields fs
 \<and> Kind (RawJSON k js) = FieldKindRawJSON \<and> Value (RawJSON k js) = VBytes js
 \<and> Kind (Hex k bytes) = FieldKindHexBytes \<and> Value (Hex k bytes) = VBytes bytes
 \<and> Kind (LazyFields (Some g)) = FieldKindLazyFields \<and> Value (LazyFields (Some g)) = VFuncCtx g
 \<and> Kind (Lazy (Some h)) = FieldKindLazyFields
 \<and> (\<exists>g'. Value (Lazy (Some h)) = VFuncCtx g' \<and> g' ctx = h ())
 \<and> LazyFields None = zero_Field \<and> Lazy None = zero_Field
 \<and> Kind zero_Field = FieldKindInvalid
 \<and> Kind (Timestamp t) = FieldKindTimestamp \<and> Value (Timestamp t) = VTime t
 \<and> Key (Timestamp t) = TimestampKey
 \<and> Kind (TimestampAt k t) = FieldKindTimestamp \<and> Value (TimestampAt k t) = VTime t
 \<and> Key (From k v) = k
 \<and> Kind (From k v) =
     (case v of VString _ \<Rightarrow> FieldKindString | VBool _ \<Rightarrow> FieldKindBool
      | VInt _ \<Rightarrow> FieldKindInt64 | VInt64 _ \<Rightarrow> FieldKindInt64
      | VUint _ \<Rightarrow> FieldKindUint64 | VUint64 _ \<Rightarrow> FieldKindUint64
      | VFloat64 _ \<Rightarrow> FieldKindFloat64 | VTime _ \<Rightarrow> FieldKindTime
      | VDuration _ \<Rightarrow> FieldKindDuration | VError _ \<Rightarrow> FieldKindError
      | _ \<Rightarrow> FieldKindAny)
 \<and> Value (From k v) =
     (case v of VInt n \<Rightarrow> VInt64 (word_of_int n) | VUint n \<Rightarrow> VUint64 (of_nat n) | _ \<Rightarrow> v)"
proof -
  have "sint (word_of_int i :: 64 word) = i"
    using assms(1,2) by (simp add: signed_take_bit_int_eq_self sint_sbintrunc')
  moreover have "unat (of_nat u :: 64 word) = u"
    using assms(3) by (simp add: unat_of_nat)
  ultimately show ?thesis
    using From_kind_payload [of k v]
    by (simp add: constructor_defs Kind_def FieldKindInvalid_def)
qed

theorem constructors_kind_and_payload_witness:
  "- (2 ^ 63) \<le> (- 5 :: int) \<and> (- 5 :: int) < 2 ^ 63 \<and> (4294967296 :: nat) < 2 ^ 64
 \<and> Kind (Int_Field ''n'' (- 5)) = FieldKindInt64
 \<and> (\<exists>w. Value (Int_Field ''n'' (- 5)) = VInt64 w \<and> sint w = - 5)
 \<and> (\<exists>w. Value (Uint ''m'' 4294967296) = VUint64 w \<and> unat w = 4294967296)
 \<and> Kind (From ''k'' (VOther ''int32'')) = FieldKindAny
 \<and> Value (From ''k'' (VOther ''int32'')) = VOther ''int32''"
proof -
  have h1: "- (2 ^ 63) \<le> (- 5 :: int)" and h2: "(- 5 :: int) < 2 ^ 63"
    and h3: "(4294967296 :: nat) < 2 ^ 64"
    by simp_all
  show ?thesis
    using h1 h2 h3
      constructors_kind_and_payload [OF h1 h2 h3, where k = "''n''"]
      constructors_kind_and_payload [OF h1 h2 h3, where k = "''m''"]
      constructors_kind_and_payload [OF h1 h2 h3, where k = "''k''" and v = "VOther ''int32''"]
    by simp
qed

text \<open>
  C7. For every key \<open>k\<close>, \<open>Error\<close> and \<open>NamedError k\<close> of a nil error return the field that
  \<open>Nop\<close> returns: empty key, kind Invalid, the empty struct as payload. They return a
  Field in every case, there is no error result.
\<close>

theorem nil_error_is_Nop:
  "Error None = Nop \<and> NamedError k None = Nop
 \<and> Key Nop = '''' \<and> Kind Nop = FieldKindInvalid \<and> Value Nop = VEmptyStruct
 \<and> IsZero (Error None) \<and> IsZero (NamedError k None)"
  by (simp add: Error_def NamedError_def Nop_def Kind_def IsZero_def)

text \<open>
  C10. \<open>Lazy\<close> and \<open>LazyFields\<close> of a nil function return the zero Field: kind Invalid and
  a nil payload, so no function is stored, and \<open>IsZero\<close> holds of it. Translating it does
  not panic: \<open>ToZap\<close> returns \<^verbatim>\<open>zap.Skip()\<close>, and \<open>toZapFields\<close> returns normally, with no
  entry for it.
\<close>

theorem nil_producer_is_zero_Field:
  "LazyFields None = zero_Field \<and> Lazy None = zero_Field
 \<and> Kind zero_Field = FieldKindInvalid \<and> Value zero_Field = VNil
 \<and> IsZero (LazyFields None) \<and> IsZero (Lazy None)
 \<and> ToZap now (LazyFields None) = Inr ZapSkip \<and> ToZap now (Lazy None) = Inr ZapSkip
 \<and> toZapFields fuel clk l lvl [LazyFields None, Lazy None] st = Inr ([], st)"
  by (simp add: logstox_Field_IsSkip_def LazyFields_def Lazy_def zero_Field_def Kind_def
      IsZero_def ToZap_def FieldKind_defs)

subsection \<open>Translation\<close>



text \<open>
  C3. The claim: the producer of a lazy field, of the kind LazyFields or LazyValue, is
  called exactly when the severity is enabled, once per translation. The lazy fields that
  the constructors build have the kind LazyFields, \<open>Lazy\<close> as well as \<open>LazyFields\<close>, and no
  translation has a case for that kind: \<open>toZapFields\<close> and \<open>ToZap\<close> take the default and
  return \<^verbatim>\<open>zap.Skip()\<close>. With a logger that enables every level the count of producer calls
  stays 0 and the fields of the producer are not in the output.
\<close>

theorem LazyFields_producer_not_called:
  "Core_Enabled \<lparr>Core_Enabled = \<lambda>lv. True\<rparr> lvl
 \<and> toZapFields fuel clk \<lparr>Core_Enabled = \<lambda>lv. True\<rparr> lvl
     [LazyFields (Some (\<lambda>ctx. [String ''a'' ''b'']))] \<lparr>reads = 0, calls = 0\<rparr>
   = Inr ([ZapSkip], \<lparr>reads = 0, calls = 0\<rparr>)
 \<and> toZapFields fuel clk \<lparr>Core_Enabled = \<lambda>lv. True\<rparr> lvl
     [Lazy (Some (\<lambda>u. [String ''a'' ''b'']))] \<lparr>reads = 0, calls = 0\<rparr>
   = Inr ([ZapSkip], \<lparr>reads = 0, calls = 0\<rparr>)
 \<and> ToZap now (LazyFields (Some (\<lambda>ctx. [String ''a'' ''b'']))) = Inr ZapSkip
 \<and> ToZap now (Lazy (Some (\<lambda>u. [String ''a'' ''b'']))) = Inr ZapSkip"
  by (simp add: logstox_Field_IsSkip_def toZapFields_switch_def ToZap_def Lazy_def
      LazyFields_def Kind_def FieldKind_defs)

text \<open>
  C4. The claim: the field that \<open>Native zf\<close> builds is recognised during translation and
  unwrapped to \<open>zf\<close>, before the general handling of the kind Any. No translation does so:
  \<open>toZapFields\<close>, the Any case of its switch and \<open>ToZap\<close> pass the wrapper itself to
  \<^verbatim>\<open>zap.Any\<close> under the key of the wrapper.
\<close>

theorem Native_is_not_unwrapped:
  "toZapFields fuel clk l lvl [Native (ZapString ''stack'' ''main.go:1'')] st
   = Inr ([ZapAny ''__zap_native__'' (VNative (ZapString ''stack'' ''main.go:1''))], st)
 \<and> toZapFields_switch clk (Native (ZapString ''stack'' ''main.go:1'')) st
   = Inr (ZapAny ''__zap_native__'' (VNative (ZapString ''stack'' ''main.go:1'')), st)
 \<and> ToZap now (Native (ZapString ''stack'' ''main.go:1''))
   = Inr (ZapAny ''__zap_native__'' (VNative (ZapString ''stack'' ''main.go:1'')))"
  by (simp add: logstox_Field_IsSkip_def toZapFields_switch_def ToZap_def Native_def
      Any_def Kind_def FieldKind_defs)

text \<open>
  C5, as the claim states it: without lazy fields the keys of the output are the keys of
  the input fields that are not no-ops. It fails for an Error field with the empty key,
  which \<open>NamedError\<close> builds: the translation passes it to \<^verbatim>\<open>zap.Error\<close>, so its entry has the
  key \<open>error\<close> and not the empty key.
\<close>

theorem empty_error_key_is_replaced:
  "toZapFields 0 (\<lambda>n. 0) \<lparr>Core_Enabled = \<lambda>lv. True\<rparr> 0
     [NamedError '''' (Some (GoError ''boom''))] \<lparr>reads = 0, calls = 0\<rparr>
   = Inr ([ZapError (GoError ''boom'')], \<lparr>reads = 0, calls = 0\<rparr>)
 \<and> map ZapField_Key [ZapError (GoError ''boom'')] = [''error'']
 \<and> map Key (filter (\<lambda>f. \<not> IsZero f) [NamedError '''' (Some (GoError ''boom''))]) = ['''']
 \<and> map ZapField_Key [ZapError (GoError ''boom'')]
   \<noteq> map Key (filter (\<lambda>f. \<not> IsZero f) [NamedError '''' (Some (GoError ''boom''))])"
  by (simp add: logstox_Field_IsSkip_def toZapFields_switch_def NamedError_def IsZero_def
      Kind_def FieldKind_defs)

text \<open>
  C5, amended. Let every field of the sequence agree with its kind, have a kind of the
  enumeration and not be lazy. Then \<open>toZapFields\<close> returns, and the keys of its output
  are, in the order of the input, the keys of the fields that are not no-ops, where an
  Error field with the empty key comes out under the conventional key \<open>error\<close>.
\<close>

theorem keys_in_input_order:
  assumes "list_all (\<lambda>f. agrees f \<and> Kind f \<le> FieldKindTimestamp
             \<and> Kind f \<noteq> FieldKindLazyFields \<and> Kind f \<noteq> FieldKindLazyValue) fs"
  shows "\<exists>out st'. toZapFields fuel clk l lvl fs st = Inr (out, st')
       \<and> map ZapField_Key out
         = map (\<lambda>f. if Kind f = FieldKindError \<and> Key f = '''' then ErrorKey else Key f)
             (filter (\<lambda>f. \<not> IsZero f) fs)"
  using assms
proof (induction fs arbitrary: st)
  case Nil
  show ?case by simp
next
  case (Cons f fs)
  from Cons.prems have ag: "agrees f" and le: "Kind f \<le> FieldKindTimestamp"
    and n1: "Kind f \<noteq> FieldKindLazyFields" and n2: "Kind f \<noteq> FieldKindLazyValue"
    and rest: "list_all (\<lambda>f. agrees f \<and> Kind f \<le> FieldKindTimestamp
             \<and> Kind f \<noteq> FieldKindLazyFields \<and> Kind f \<noteq> FieldKindLazyValue) fs"
    by simp_all
  show ?case
  proof (cases "IsZero f")
    case True
    obtain out st' where "toZapFields fuel clk l lvl fs st = Inr (out, st')"
      and "map ZapField_Key out
         = map (\<lambda>f. if Kind f = FieldKindError \<and> Key f = '''' then ErrorKey else Key f)
             (filter (\<lambda>f. \<not> IsZero f) fs)"
      using Cons.IH [OF rest] by blast
    with True show ?thesis
      by (simp add: logstox_Field_IsSkip_def IsZero_def)
  next
    case False
    obtain z s1 where z: "toZapFields_switch clk f st = Inr (z, s1)"
      using toZapFields_switch_agrees [OF ag] by blast
    have key: "ZapField_Key z
        = (if Kind f = FieldKindError \<and> Key f = '''' then ErrorKey else Key f)"
      using z le n1 n2 False by (rule toZapFields_switch_key)
    obtain out st' where out: "toZapFields fuel clk l lvl fs s1 = Inr (out, st')"
      and keys: "map ZapField_Key out
         = map (\<lambda>f. if Kind f = FieldKindError \<and> Key f = '''' then ErrorKey else Key f)
             (filter (\<lambda>f. \<not> IsZero f) fs)"
      using Cons.IH [OF rest] by blast
    have "toZapFields fuel clk l lvl (f # fs) st = Inr (z # out, st')"
      using False n2 z out by (simp add: logstox_Field_IsSkip_def IsZero_def)
    then show ?thesis
      using False key keys by simp
  qed
qed

theorem keys_in_input_order_witness:
  "list_all (\<lambda>f. agrees f \<and> Kind f \<le> FieldKindTimestamp
             \<and> Kind f \<noteq> FieldKindLazyFields \<and> Kind f \<noteq> FieldKindLazyValue)
     [String ''user'' ''alice'', Nop, NamedError '''' (Some (GoError ''boom'')),
      Int64 ''status'' 200]
 \<and> (\<exists>out st'. toZapFields 0 (\<lambda>n. 0) \<lparr>Core_Enabled = \<lambda>lv. True\<rparr> 0
        [String ''user'' ''alice'', Nop, NamedError '''' (Some (GoError ''boom'')),
         Int64 ''status'' 200] \<lparr>reads = 0, calls = 0\<rparr> = Inr (out, st')
      \<and> map ZapField_Key out = [''user'', ''error'', ''status''])"
proof -
  have h: "list_all (\<lambda>f. agrees f \<and> Kind f \<le> FieldKindTimestamp
             \<and> Kind f \<noteq> FieldKindLazyFields \<and> Kind f \<noteq> FieldKindLazyValue)
     [String ''user'' ''alice'', Nop, NamedError '''' (Some (GoError ''boom'')),
      Int64 ''status'' 200]"
    by (simp add: agrees_def String_def Nop_def NamedError_def Int64_def Kind_def
        FieldKind_defs)
  show ?thesis
    using h keys_in_input_order [OF h, where fuel = 0 and clk = "\<lambda>n. 0"
        and l = "\<lparr>Core_Enabled = \<lambda>lv. True\<rparr>" and lvl = 0
        and st = "\<lparr>reads = 0, calls = 0\<rparr>"]
    by (simp add: eval_defs)
qed

text \<open>
  C8. A field whose kind lies outside the enumeration, that is above \<open>FieldKindTimestamp\<close>,
  is translated without error or panic, whatever its payload: \<open>ToZap\<close> returns
  \<^verbatim>\<open>zap.Skip()\<close>, and \<open>toZapFields\<close> returns the one entry \<^verbatim>\<open>zap.Skip()\<close> for it, the no-op
  field of zap. In a sequence, the output is the output of the fields before it, this
  entry, and the output of the fields after it, which are translated from the same state
  as without the field; an error can only come from them. The marshaler of a Dict
  writes nothing for the field and returns what it returns without it.
\<close>

theorem unknown_kind_is_dropped:
  assumes "FieldKindTimestamp < Kind f"
  shows "ToZap now f = Inr ZapSkip
       \<and> toZapFields fuel clk l lvl [f] st = Inr ([ZapSkip], st)
       \<and> toZapFields fuel clk l lvl (pre @ f # post) st
         = bindE (toZapFields fuel clk l lvl pre st) (\<lambda>(o1, s1).
             bindE (toZapFields fuel clk l lvl post s1) (\<lambda>(o2, s2).
               Inr (o1 @ ZapSkip # o2, s2)))
       \<and> dictMarshaler_MarshalLogObject clk [f] st = Inr ([], st)
       \<and> dictMarshaler_MarshalLogObject clk (pre @ f # post) st
         = dictMarshaler_MarshalLogObject clk (pre @ post) st"
proof -
  have a: "ToZap now f = Inr ZapSkip"
    using assms by (auto simp: ToZap_def FieldKind_defs)
  have b: "toZapFields fuel clk l lvl [f] s = Inr ([ZapSkip], s)" for s
    using assms by (rule unknown_kind_single)
  have "toZapFields fuel clk l lvl (f # post) s
      = bindE (toZapFields fuel clk l lvl post s) (\<lambda>(o2, s2). Inr (ZapSkip # o2, s2))" for s
    by (subst toZapFields_Cons) (simp only: b bindE_simps prod.case append.simps)
  then have c: "toZapFields fuel clk l lvl (pre @ f # post) st
         = bindE (toZapFields fuel clk l lvl pre st) (\<lambda>(o1, s1).
             bindE (toZapFields fuel clk l lvl post s1) (\<lambda>(o2, s2).
               Inr (o1 @ ZapSkip # o2, s2)))"
    by (simp add: toZapFields_append [of fuel clk l lvl pre] bindE_def
        split: sum.splits prod.splits cong: sum.case_cong)
  have d: "dictMarshaler_MarshalLogObject clk [f] s = Inr ([], s)" for s
    using assms by (rule unknown_kind_marshal)
  have e: "dictMarshaler_MarshalLogObject clk (pre @ f # post) st
         = dictMarshaler_MarshalLogObject clk (pre @ post) st"
    using d by (rule MarshalLogObject_drop)
  from a b c d e show ?thesis by blast
qed

theorem unknown_kind_is_dropped_witness:
  "FieldKindTimestamp < Kind (Field ''x'' 200 (VOther ''chan int''))
 \<and> ToZap 5 (Field ''x'' 200 (VOther ''chan int'')) = Inr ZapSkip
 \<and> toZapFields 0 (\<lambda>n. 5) \<lparr>Core_Enabled = \<lambda>lv. True\<rparr> 0
     ([String ''a'' ''b''] @ Field ''x'' 200 (VOther ''chan int'') # [Bool ''c'' True])
     \<lparr>reads = 0, calls = 0\<rparr>
   = Inr ([ZapString ''a'' ''b'', ZapSkip, ZapBool ''c'' True], \<lparr>reads = 0, calls = 0\<rparr>)
 \<and> dictMarshaler_MarshalLogObject (\<lambda>n. 5)
     ([String ''a'' ''b''] @ Field ''x'' 200 (VOther ''chan int'') # [Bool ''c'' True])
     \<lparr>reads = 0, calls = 0\<rparr>
   = Inr ([AddString ''a'' ''b'', AddBool ''c'' True], \<lparr>reads = 0, calls = 0\<rparr>)"
proof -
  have h: "FieldKindTimestamp < Kind (Field ''x'' 200 (VOther ''chan int''))"
    by (simp add: Kind_def FieldKindTimestamp_def)
  show ?thesis
    using h unknown_kind_is_dropped [OF h, where now = 5 and fuel = 0 and clk = "\<lambda>n. 5"
        and l = "\<lparr>Core_Enabled = \<lambda>lv. True\<rparr>" and lvl = 0
        and st = "\<lparr>reads = 0, calls = 0\<rparr>"
        and pre = "[String ''a'' ''b'']" and post = "[Bool ''c'' True]"]
    by (simp add: eval_defs)
qed

text \<open>
  C9. A Timestamp field carries the time it was built with; building it reads no clock.
  Translating it with the zero time emits the reading that the clock gives during the
  translation: \<open>now\<close> for \<open>ToZap\<close>, and for \<open>toZapFields\<close> and the marshaler of a Dict the
  next reading \<open>clk (reads st)\<close>, after which one more reading is counted. With another
  time the carried time is emitted unchanged and the clock is not read.
\<close>

theorem Timestamp_translation:
  assumes "Kind f = FieldKindTimestamp" and "Value f = VTime t"
  shows "ToZap now f = Inr (ZapTime (Key f) (if t = 0 then now else t))
       \<and> toZapFields fuel clk l lvl [f] st
         = Inr ([ZapTime (Key f) (if t = 0 then clk (reads st) else t)],
                if t = 0 then st\<lparr>reads := Suc (reads st)\<rparr> else st)
       \<and> dictMarshaler_MarshalLogObject clk [f] st
         = Inr ([AddTime (Key f) (if t = 0 then clk (reads st) else t)],
                if t = 0 then st\<lparr>reads := Suc (reads st)\<rparr> else st)
       \<and> Kind (Timestamp t) = FieldKindTimestamp \<and> Value (Timestamp t) = VTime t
       \<and> Kind (TimestampAt k t) = FieldKindTimestamp \<and> Value (TimestampAt k t) = VTime t"
  using assms
  by (simp add: ToZap_def logstox_Field_IsSkip_def toZapFields_switch_def
      MarshalLogObject_switch_def time_Now_def Timestamp_def TimestampAt_def Kind_def
      FieldKind_defs)

theorem Timestamp_translation_witness:
  "Kind (Timestamp 0) = FieldKindTimestamp \<and> Value (Timestamp 0) = VTime 0
 \<and> ToZap 1700000000 (Timestamp 0) = Inr (ZapTime ''ts'' 1700000000)
 \<and> toZapFields 0 (\<lambda>n. 1700000000 + int n) \<lparr>Core_Enabled = \<lambda>lv. True\<rparr> 0
     [Timestamp 0] \<lparr>reads = 3, calls = 0\<rparr>
   = Inr ([ZapTime ''ts'' 1700000003], \<lparr>reads = 4, calls = 0\<rparr>)
 \<and> Kind (TimestampAt ''at'' 42) = FieldKindTimestamp \<and> Value (TimestampAt ''at'' 42) = VTime 42
 \<and> toZapFields 0 (\<lambda>n. 1700000000 + int n) \<lparr>Core_Enabled = \<lambda>lv. True\<rparr> 0
     [TimestampAt ''at'' 42] \<lparr>reads = 3, calls = 0\<rparr>
   = Inr ([ZapTime ''at'' 42], \<lparr>reads = 3, calls = 0\<rparr>)"
proof -
  have h1: "Kind (Timestamp 0) = FieldKindTimestamp" and h2: "Value (Timestamp 0) = VTime 0"
    and h3: "Kind (TimestampAt ''at'' 42) = FieldKindTimestamp"
    and h4: "Value (TimestampAt ''at'' 42) = VTime 42"
    by (simp_all add: Timestamp_def TimestampAt_def Kind_def)
  show ?thesis
    using h1 h2 h3 h4
      Timestamp_translation [OF h1 h2, where now = 1700000000 and fuel = 0
        and clk = "\<lambda>n. 1700000000 + int n"
        and l = "\<lparr>Core_Enabled = \<lambda>lv. True\<rparr>" and lvl = 0
        and st = "\<lparr>reads = 3, calls = 0\<rparr>"]
      Timestamp_translation [OF h3 h4, where now = 1700000000 and fuel = 0
        and clk = "\<lambda>n. 1700000000 + int n"
        and l = "\<lparr>Core_Enabled = \<lambda>lv. True\<rparr>" and lvl = 0
        and st = "\<lparr>reads = 3, calls = 0\<rparr>"]
    by (simp add: eval_defs)
qed

end
